theory Spec2Isabelle
  imports Complex_Main
begin

section \<open>Go values behind the declaration surface of \<^verbatim>\<open>ginkgo_dsl.go\<close>\<close>

subsection \<open>float64 and its conversions\<close>

text \<open>
  The timeout arguments of \<^verbatim>\<open>It\<close>, \<^verbatim>\<open>BeforeEach\<close> and their siblings are
  \<^verbatim>\<open>float64\<close> values, and \<^verbatim>\<open>parseTimeout\<close> multiplies one by
  \<^verbatim>\<open>float64(time.Second)\<close> and converts the product to \<^verbatim>\<open>time.Duration\<close>
  (an \<^verbatim>\<open>int64\<close> count of nanoseconds). A float64 is modelled by what it denotes:
  \<open>Finite s m e\<close> is \<open>(-1)^s * m * 2^e\<close> (\<open>s\<close> set for a negative sign, so both
  zeros exist), besides the two infinities and NaN. The values a float64 can hold are the
  \<open>Finite s m e\<close> with \<open>m < 2^53\<close> and \<open>-1074 \<le> e \<le> 971\<close>; every operation below
  returns such a value (or an infinity, or NaN), by rounding to nearest, ties to even, as
  IEEE 754 binary64 arithmetic does.

  Values of \<^verbatim>\<open>int\<close>, \<^verbatim>\<open>int64\<close> and \<^verbatim>\<open>time.Duration\<close> are modelled by
  \<open>int\<close>: the source does no integer arithmetic besides the constant
  \<^verbatim>\<open>defaultTimeout * int64(time.Second)\<close>, and the one conversion that can leave the
  range of int64 checks the range explicitly.
\<close>

datatype float64 = Finite bool nat int | Infinity bool | NaN

fun bitlen :: "nat \<Rightarrow> nat" where
  "bitlen n = (if n = 0 then 0 else Suc (bitlen (n div 2)))"

declare bitlen.simps [simp del]

definition pack :: "bool \<Rightarrow> nat \<Rightarrow> int \<Rightarrow> float64" where
  \<comment> \<open>A rounded significand \<open>m \<le> 2^53\<close> at exponent \<open>e\<close>: the carry out of the
      significand moves to the next exponent, and a value beyond the largest float64
      overflows to infinity.\<close>
  "pack s m e =
     (let (m', e') = (if m = 2 ^ 53 then (2 ^ 52, e + 1) else (m, e))
      in if 971 < e' then Infinity s else Finite s m' e')"

definition round_float :: "bool \<Rightarrow> nat \<Rightarrow> int \<Rightarrow> float64" where
  \<comment> \<open>The float64 nearest to \<open>(-1)^s * m * 2^e\<close>, ties to even: 53 significant bits,
      fewer below the smallest normal exponent.\<close>
  "round_float s m e =
     (if m = 0 then Finite s 0 0
      else
        let e' = max (e + int (bitlen m) - 53) (- 1074)
        in if e' \<le> e then pack s (m * 2 ^ nat (e - e')) e'
           else
             let d = nat (e' - e);
                 q = m div 2 ^ d;
                 r = m mod 2 ^ d
             in pack s (if 2 ^ d < 2 * r \<or> (2 * r = 2 ^ d \<and> odd q) then q + 1 else q) e')"

fun fmul :: "float64 \<Rightarrow> float64 \<Rightarrow> float64" where
  \<comment> \<open>Go's \<^verbatim>\<open>*\<close> on float64.\<close>
  "fmul NaN _ = NaN"
| "fmul _ NaN = NaN"
| "fmul (Infinity s) (Infinity t) = Infinity (s \<noteq> t)"
| "fmul (Infinity s) (Finite t m e) = (if m = 0 then NaN else Infinity (s \<noteq> t))"
| "fmul (Finite s m e) (Infinity t) = (if m = 0 then NaN else Infinity (s \<noteq> t))"
| "fmul (Finite s m e) (Finite t n f) = round_float (s \<noteq> t) (m * n) (e + f)"

fun is_float64 :: "float64 \<Rightarrow> bool" where
  \<comment> \<open>The values a float64 can hold.\<close>
  "is_float64 (Finite s m e) = (m < 2 ^ 53 \<and> - 1074 \<le> e \<and> e \<le> 971)"
| "is_float64 _ = True"

definition float64_of_int64 :: "int \<Rightarrow> float64" where
  \<comment> \<open>Go's conversion \<^verbatim>\<open>float64(n)\<close> of an integer.\<close>
  "float64_of_int64 n = round_float (n < 0) (nat \<bar>n\<bar>) 0"

definition int64_of_float64 :: "(float64 \<Rightarrow> int) \<Rightarrow> float64 \<Rightarrow> int" where
  \<comment> \<open>Go's conversion \<^verbatim>\<open>int64(f)\<close> (here \<^verbatim>\<open>time.Duration(f)\<close>): the fraction is
      discarded, truncating towards zero. Where int64 cannot represent the value the
      language leaves the result to the implementation: \<open>impl\<close> is that choice.\<close>
  "int64_of_float64 impl f =
     (case f of
        Finite s m e \<Rightarrow>
          (let a = (if 0 \<le> e then int m * 2 ^ nat e else int m div 2 ^ nat (- e));
               v = (if s then - a else a)
           in if - (2 ^ 63) \<le> v \<and> v < 2 ^ 63 then v else impl f)
      | _ \<Rightarrow> impl f)"


subsection \<open>Timeouts\<close>

definition Second :: int where
  \<comment> \<open>\<^verbatim>\<open>time.Second\<close>, in nanoseconds.\<close>
  "Second = 1000000000"

definition defaultTimeout :: int where
  "defaultTimeout = 1"

definition parseTimeout :: "(float64 \<Rightarrow> int) \<Rightarrow> float64 list \<Rightarrow> int" where
  "parseTimeout impl timeout =
     (if length timeout = 0 then defaultTimeout * Second
      else int64_of_float64 impl (fmul (timeout ! 0) (float64_of_int64 Second)))"

section \<open>The collaborators of the declaration surface\<close>

text \<open>
  \<^verbatim>\<open>ginkgo_dsl.go\<close> is the public surface of the framework: every function in it hands
  its arguments to the suite (\<^verbatim>\<open>internal.Suite\<close>), to the output writer
  (\<^verbatim>\<open>internal.GinkgoWriter\<close>) or to a constructor of a reporter. Go values that the
  surface passes on without looking into them (user functions, custom reporters, the
  \<^verbatim>\<open>GinkgoTestingT\<close>, \<^verbatim>\<open>config.GinkgoConfig\<close>, values given to \<^verbatim>\<open>panic\<close>)
  are values of a type variable \<open>'v\<close>; code locations are values of \<open>'l\<close>.
\<close>

subsection \<open>Interface values and panics\<close>

datatype runtime_error = TypeAssertionError | IndexOutOfRange

datatype 'v interface =
    Nil
  | GoString string
  | RuntimeError runtime_error
  | ConfigurationError \<comment> \<open>the failure of a push operation of the suite (spec section 4.1)\<close>
  | Value 'v

text \<open>
  How a call ends: it returns a result, it panics with a value, or it never returns (a
  body supplied by the caller can run forever).
\<close>

datatype ('v, 'a) outcome = Returned 'a | Panicked "'v interface" | NeverReturns

definition returning :: "'a \<Rightarrow> ('v, 'b) outcome \<times> 's \<Rightarrow> ('v, 'a) outcome \<times> 's" where
  \<comment> \<open>The statement \<^verbatim>\<open>return r\<close> that follows a call: it is reached, and its value
      returned, only if the call returns.\<close>
  "returning r call =
     (case call of
        (Returned _, s) \<Rightarrow> (Returned r, s)
      | (Panicked e, s) \<Rightarrow> (Panicked e, s)
      | (NeverReturns, s) \<Rightarrow> (NeverReturns, s))"

record 'v goroutine =
  panicking :: "'v interface option"
  \<comment> \<open>\<open>Some e\<close> while a panic with value \<open>e\<close> unwinds the goroutine\<close>

definition recover :: "bool \<Rightarrow> 'v goroutine \<Rightarrow> 'v interface \<times> 'v goroutine" where
  \<comment> \<open>Go's builtin \<^verbatim>\<open>recover()\<close>. It returns nil when the goroutine is not panicking
      or when the call is not made directly by a deferred function (\<open>deferred\<close> says
      whether it is); otherwise it returns the value given to \<^verbatim>\<open>panic\<close> and stops
      the panic.\<close>
  "recover deferred g =
     (case panicking g of
        None \<Rightarrow> (Nil, g)
      | Some e \<Rightarrow> if deferred then (e, g\<lparr>panicking := None\<rparr>) else (Nil, g))"

subsection \<open>Nodes and the suite\<close>

datatype FlagType = FlagTypeNone | FlagTypeFocused | FlagTypePending

datatype 'v body =
    Body 'v \<comment> \<open>the value the caller supplied\<close>
  | EmptyFunc \<comment> \<open>the literal \<^verbatim>\<open>func() {}\<close>\<close>
  | EmptyBenchmarkerFunc \<comment> \<open>the literal \<^verbatim>\<open>func(b Benchmarker) {}\<close>\<close>

datatype ('v, 'l) node =
    ContainerNode string "'v body" FlagType 'l "('v, 'l) node list"
  | ItNode string "'v body" FlagType 'l int
  | MeasureNode string "'v body" FlagType 'l int
  | BeforeEachNode "'v body" 'l int
  | JustBeforeEachNode "'v body" 'l int
  | AfterEachNode "'v body" 'l int

fun node_flag :: "('v, 'l) node \<Rightarrow> FlagType option" where
  "node_flag (ContainerNode _ _ flag _ _) = Some flag"
| "node_flag (ItNode _ _ flag _ _) = Some flag"
| "node_flag (MeasureNode _ _ flag _ _) = Some flag"
| "node_flag _ = None"


fun node_samples :: "('v, 'l) node \<Rightarrow> int option" where
  "node_samples (MeasureNode _ _ _ _ samples) = Some samples"
| "node_samples _ = None"

fun node_body :: "('v, 'l) node \<Rightarrow> 'v body" where
  "node_body (ContainerNode _ b _ _ _) = b"
| "node_body (ItNode _ b _ _ _) = b"
| "node_body (MeasureNode _ b _ _ _) = b"
| "node_body (BeforeEachNode b _ _) = b"
| "node_body (JustBeforeEachNode b _ _) = b"
| "node_body (AfterEachNode b _ _) = b"

text \<open>
  Modelled from the spec: \<^verbatim>\<open>internal.Suite\<close> (package \<^verbatim>\<open>internal\<close> is not among the
  sources). Its push operations are handed a node for the tree under construction (spec
  section 4.1) and its \<^verbatim>\<open>Fail\<close> records a failure on the suite-wide run state (spec
  section 4.4). The record keeps what the suite was handed, in the order of the calls:
  \<open>nodes\<close> are the nodes handed to the push operations at the grouping being built,
  each with every argument of its push, whether the push then succeeded or failed; the
  entry of a container carries, as its last argument, the nodes handed over while its body
  ran. \<open>failures\<close> are the failures with message and caller skip; which failure of a
  spec wins is the engine's choice and is not modelled.
\<close>

record ('v, 'l) Suite =
  nodes :: "('v, 'l) node list"
  failures :: "(string \<times> int) list"

definition handed :: "('v, 'l) node \<Rightarrow> ('v, 'l) Suite \<Rightarrow> ('v, 'l) Suite" where
  \<comment> \<open>Modelled from the spec: the node a push operation of \<^verbatim>\<open>internal.Suite\<close> is
      handed, appended to the list of the grouping being built (section 4.1). Whether the
      push succeeds is decided by the push operations below, not here.\<close>
  "handed n s = s\<lparr>nodes := nodes s @ [n]\<rparr>"

definition Suite_Fail :: "string \<Rightarrow> int \<Rightarrow> ('v, 'l) Suite \<Rightarrow> ('v, 'l) Suite" where
  \<comment> \<open>Modelled from the spec: \<^verbatim>\<open>internal.Suite.Fail\<close> (section 4.4: it records
      a failure on the suite-wide run state).\<close>
  "Suite_Fail message callerSkip s = s\<lparr>failures := failures s @ [(message, callerSkip)]\<rparr>"

subsection \<open>The output writer\<close>

text \<open>
  Modelled from the spec: \<^verbatim>\<open>internal.GinkgoWriter\<close> (not among the sources), the
  output buffer of spec section 4.7. In verbose mode every write passes through
  immediately to the real sink; otherwise writes accumulate in memory. \<open>sink\<close> is what
  has reached the real sink, \<open>buffer\<close> what is held back.
\<close>

record GinkgoWriter_state =
  directToStdout :: bool
  buffer :: string
  sink :: string

definition SetDirectToStdout :: "bool \<Rightarrow> GinkgoWriter_state \<Rightarrow> GinkgoWriter_state" where
  \<comment> \<open>Modelled from the spec: \<^verbatim>\<open>internal.GinkgoWriter.SetDirectToStdout\<close>, the
      switch between the two modes of section 4.7.\<close>
  "SetDirectToStdout b w = w\<lparr>directToStdout := b\<rparr>"

definition Write :: "string \<Rightarrow> GinkgoWriter_state \<Rightarrow> GinkgoWriter_state" where
  \<comment> \<open>Modelled from the spec: \<^verbatim>\<open>internal.GinkgoWriter.Write\<close> (section 4.7).\<close>
  "Write b w = (if directToStdout w then w\<lparr>sink := sink w @ b\<rparr> else w\<lparr>buffer := buffer w @ b\<rparr>)"

datatype 'v io_Writer =
    NilWriter
  | InternalGinkgoWriter GinkgoWriter_state \<comment> \<open>dynamic type \<^verbatim>\<open>*internal.GinkgoWriter\<close>\<close>
  | OtherWriter 'v \<comment> \<open>any other implementation of \<^verbatim>\<open>io.Writer\<close>\<close>

subsection \<open>Reporters and configuration\<close>

record DefaultReporterConfigType =
  NoColor :: bool
  Verbose :: bool

datatype Stenographer = stenographer_New bool

datatype http_Client = http_Client_zero \<comment> \<open>\<^verbatim>\<open>&http.Client{}\<close>\<close>

datatype OutputInterceptor = remote_NewOutputInterceptor

text \<open>
  A reporter built by a constructor of a package outside the sources is the constructor
  applied to its arguments; \<open>CustomReporter\<close> is a reporter of the caller's.
\<close>

datatype 'v Reporter =
    NilReporter
  | reporters_NewDefaultReporter DefaultReporterConfigType Stenographer
  | remote_NewForwardingReporter string http_Client OutputInterceptor
  | CustomReporter 'v

subsection \<open>Package state\<close>

text \<open>
  The package-level variables the surface reads and writes: its own \<^verbatim>\<open>globalSuite\<close>
  and \<^verbatim>\<open>GinkgoWriter\<close> (an exported \<^verbatim>\<open>io.Writer\<close>, so its dynamic type is part of
  the state), the two configuration variables of package \<^verbatim>\<open>config\<close>, and the
  process environment read by \<^verbatim>\<open>os.Getenv\<close>. Modelled from the spec (section 4.1),
  the state of the suite's tree builder: \<open>building\<close> holds while a build pass is active,
  and \<open>cursor\<close> is the stack of the groupings entered and not yet left, innermost
  first, by their texts; with an empty stack the cursor has no parent.
\<close>

record ('v, 'l) world =
  globalSuite :: "('v, 'l) Suite"
  GinkgoWriter :: "'v io_Writer"
  DefaultReporterConfig :: DefaultReporterConfigType
  GinkgoConfig :: 'v
  environ :: "string \<Rightarrow> string option"
  building :: bool
  cursor :: "string list"

definition os_Getenv :: "('v, 'l) world \<Rightarrow> string \<Rightarrow> string" where
  \<comment> \<open>\<^verbatim>\<open>os.Getenv\<close> returns the empty string for a variable that is not set.\<close>
  "os_Getenv w key = (case environ w key of None \<Rightarrow> [] | Some v \<Rightarrow> v)"

text \<open>
  What the surface calls and the sources do not define: \<^verbatim>\<open>codelocation.New\<close> (the
  location \<open>skip\<close> frames up the stack of the call being modelled), the rendering of a
  value by \<^verbatim>\<open>fmt\<close>'s verb \<^verbatim>\<open>%#v\<close>, and the implementation's result of converting
  to int64 a float64 that int64 cannot represent. \<open>invoke\<close> is the call of a function
  supplied by the caller, the body of a container: how the call ends and the package state
  it leaves.
\<close>

record ('v, 'l) extern =
  codelocation_New :: "int \<Rightarrow> 'l"
  GoSyntax :: "'v interface \<Rightarrow> string"
  int64_unrepresentable :: "float64 \<Rightarrow> int"
  invoke :: "'v \<Rightarrow> ('v, 'l) world \<Rightarrow> ('v, unit) outcome \<times> ('v, 'l) world"

subsection \<open>The push operations of the suite\<close>

text \<open>
  Spec section 4.1: a leaf, a measured leaf or a hook is appended at the cursor; the push
  fails with ConfigurationError outside an active build pass and when the cursor has no
  parent. A grouping is pushed by invoking its body synchronously with the cursor set to
  the new grouping, and popping the cursor afterwards; it fails outside an active build
  pass. The push operations have no result in Go, so a failing push leaves its caller
  by a panic. The body can hand further nodes to the suite, panic or never return: the
  cursor is popped only when the body returns.
\<close>

definition push_leaf ::
  "('v, 'l) node \<Rightarrow> ('v, 'l) world \<Rightarrow> ('v, unit) outcome \<times> ('v, 'l) world" where
  \<comment> \<open>Modelled from the spec: the push of a leaf or hook (section 4.1).\<close>
  "push_leaf n w =
     ((if building w \<and> cursor w \<noteq> [] then Returned () else Panicked ConfigurationError),
      w\<lparr>globalSuite := handed n (globalSuite w)\<rparr>)"

definition enter :: "string \<Rightarrow> ('v, 'l) world \<Rightarrow> ('v, 'l) world" where
  \<comment> \<open>Modelled from the spec: the cursor set to a newly created grouping, to which
      nothing has been handed yet (section 4.1).\<close>
  "enter txt w = w\<lparr>cursor := txt # cursor w, globalSuite := (globalSuite w)\<lparr>nodes := []\<rparr>\<rparr>"

definition PushContainerNode ::
  "('v, 'l) extern \<Rightarrow> string \<Rightarrow> 'v \<Rightarrow> FlagType \<Rightarrow> 'l \<Rightarrow> ('v, 'l) world
     \<Rightarrow> ('v, unit) outcome \<times> ('v, 'l) world" where
  \<comment> \<open>Modelled from the spec: \<^verbatim>\<open>internal.Suite.PushContainerNode\<close>, the push of a
      grouping (section 4.1).\<close>
  "PushContainerNode x txt f flag codeLocation w =
     (if \<not> building w
      then (Panicked ConfigurationError,
            w\<lparr>globalSuite := handed (ContainerNode txt (Body f) flag codeLocation []) (globalSuite w)\<rparr>)
      else
        (case invoke x f (enter txt w) of
           (ending, left) \<Rightarrow>
             (let children = nodes (globalSuite left);
                  attached =
                    left\<lparr>globalSuite :=
                           handed (ContainerNode txt (Body f) flag codeLocation children)
                             ((globalSuite left)\<lparr>nodes := nodes (globalSuite w)\<rparr>)\<rparr>
              in case ending of
                   Returned _ \<Rightarrow> (Returned (), attached\<lparr>cursor := cursor w\<rparr>)
                 | Panicked e \<Rightarrow> (Panicked e, attached)
                 | NeverReturns \<Rightarrow> (NeverReturns, attached))))"

definition PushItNode ::
  "string \<Rightarrow> 'v body \<Rightarrow> FlagType \<Rightarrow> 'l \<Rightarrow> int \<Rightarrow> ('v, 'l) world
     \<Rightarrow> ('v, unit) outcome \<times> ('v, 'l) world" where
  \<comment> \<open>Modelled from the spec: \<^verbatim>\<open>internal.Suite.PushItNode\<close>.\<close>
  "PushItNode txt b flag codeLocation timeout = push_leaf (ItNode txt b flag codeLocation timeout)"

definition PushMeasureNode ::
  "string \<Rightarrow> 'v body \<Rightarrow> FlagType \<Rightarrow> 'l \<Rightarrow> int \<Rightarrow> ('v, 'l) world
     \<Rightarrow> ('v, unit) outcome \<times> ('v, 'l) world" where
  \<comment> \<open>Modelled from the spec: \<^verbatim>\<open>internal.Suite.PushMeasureNode\<close>.\<close>
  "PushMeasureNode txt b flag codeLocation samples =
     push_leaf (MeasureNode txt b flag codeLocation samples)"

definition PushBeforeEachNode ::
  "'v body \<Rightarrow> 'l \<Rightarrow> int \<Rightarrow> ('v, 'l) world \<Rightarrow> ('v, unit) outcome \<times> ('v, 'l) world" where
  \<comment> \<open>Modelled from the spec: \<^verbatim>\<open>internal.Suite.PushBeforeEachNode\<close>.\<close>
  "PushBeforeEachNode b codeLocation timeout = push_leaf (BeforeEachNode b codeLocation timeout)"

definition PushJustBeforeEachNode ::
  "'v body \<Rightarrow> 'l \<Rightarrow> int \<Rightarrow> ('v, 'l) world \<Rightarrow> ('v, unit) outcome \<times> ('v, 'l) world" where
  \<comment> \<open>Modelled from the spec: \<^verbatim>\<open>internal.Suite.PushJustBeforeEachNode\<close>.\<close>
  "PushJustBeforeEachNode b codeLocation timeout =
     push_leaf (JustBeforeEachNode b codeLocation timeout)"

definition PushAfterEachNode ::
  "'v body \<Rightarrow> 'l \<Rightarrow> int \<Rightarrow> ('v, 'l) world \<Rightarrow> ('v, unit) outcome \<times> ('v, 'l) world" where
  \<comment> \<open>Modelled from the spec: \<^verbatim>\<open>internal.Suite.PushAfterEachNode\<close>.\<close>
  "PushAfterEachNode b codeLocation timeout = push_leaf (AfterEachNode b codeLocation timeout)"

section \<open>The declaration surface\<close>

text \<open>
  Each function of \<^verbatim>\<open>ginkgo_dsl.go\<close> takes the collaborators \<open>x\<close>, its Go arguments
  (a variadic parameter is the list of the arguments supplied) and the package state, and
  returns its Go result with the state it leaves. A function that can panic returns a
  sum: \<open>Inl e\<close> is a panic with value \<open>e\<close>. A declaration returns how it ends, with
  the state it leaves: it calls a push operation of the suite, which can fail and, for a
  container, runs the body.
\<close>

definition LF :: char where
  "LF = CHR 0x0A"

definition TAB :: char where
  "TAB = CHR 0x09"

definition GINKGO_PANIC :: string where
  "GINKGO_PANIC =
     [LF] @ ''Your test failed.'' @
     [LF] @ ''Ginkgo panics to prevent subsequent assertions from running.'' @
     [LF] @ ''Normally Ginkgo rescues this panic so you shouldn't see it.'' @
     [LF] @
     [LF] @ ''But, if you make an assertion in a goroutine, Ginkgo can't capture the panic.'' @
     [LF] @ ''To circumvent this, you should call'' @
     [LF] @
     [LF] @ [TAB] @ ''defer GinkgoRecover()'' @
     [LF] @
     [LF] @ ''at the top of the goroutine that caused this panic.'' @
     [LF]"

subsection \<open>Running the suite\<close>

definition buildDefaultReporter :: "('v, 'l) world \<Rightarrow> 'v Reporter" where
  "buildDefaultReporter w =
     (let remoteReportingServer = os_Getenv w ''GINKGO_REMOTE_REPORTING_SERVER''
      in if remoteReportingServer = []
         then
           (let stenographer = stenographer_New (\<not> NoColor (DefaultReporterConfig w))
            in reporters_NewDefaultReporter (DefaultReporterConfig w) stenographer)
         else remote_NewForwardingReporter remoteReportingServer http_Client_zero
                remote_NewOutputInterceptor)"

definition make_reporters :: "nat \<Rightarrow> 'v Reporter list" where
  \<comment> \<open>\<^verbatim>\<open>make([]reporters.Reporter, n)\<close>: \<open>n\<close> nil interfaces.\<close>
  "make_reporters n = replicate n NilReporter"

fun range_reporters ::
  "nat \<Rightarrow> 'v Reporter list \<Rightarrow> 'v Reporter list \<Rightarrow> 'v interface + 'v Reporter list" where
  \<comment> \<open>The loop \<^verbatim>\<open>for i, reporter := range specReporters { reporters[i] = reporter }\<close>,
      from index \<open>i\<close> on; an index assignment out of range is a run-time panic.\<close>
  "range_reporters i [] reporters = Inr reporters"
| "range_reporters i (reporter # specReporters) reporters =
     (if i < length reporters
      then range_reporters (Suc i) specReporters (reporters[i := reporter])
      else Inl (RuntimeError IndexOutOfRange))"

text \<open>
  \<^verbatim>\<open>globalSuite.Run\<close> is the engine itself, outside the sources: \<open>run\<close> stands for it,
  applied to the five arguments of the call and to the package state at the moment of the
  call. The writer argument is a pointer to the object \<^verbatim>\<open>GinkgoWriter\<close> holds; the
  model passes the object as the call finds it. Whatever \<open>run\<close> yields (a result, a
  panic, a new state) is what the caller yields.
\<close>

type_synonym ('v, 'l, 'r) Suite_Run =
  "'v \<Rightarrow> string \<Rightarrow> 'v Reporter list \<Rightarrow> GinkgoWriter_state \<Rightarrow> 'v \<Rightarrow> ('v, 'l) world \<Rightarrow> 'r"

definition RunSpecsWithCustomReporters ::
  "('v, 'l, 'r) Suite_Run \<Rightarrow> 'v \<Rightarrow> string \<Rightarrow> 'v Reporter list \<Rightarrow> ('v, 'l) world
     \<Rightarrow> 'v interface + 'r" where
  "RunSpecsWithCustomReporters run t description specReporters w =
     (case GinkgoWriter w of
        InternalGinkgoWriter writer0 \<Rightarrow>
          (let writer = SetDirectToStdout (Verbose (DefaultReporterConfig w)) writer0;
               w' = w\<lparr>GinkgoWriter := InternalGinkgoWriter writer\<rparr>
           in case range_reporters 0 specReporters (make_reporters (length specReporters)) of
                Inl e \<Rightarrow> Inl e
              | Inr reporters \<Rightarrow> Inr (run t description reporters writer (GinkgoConfig w') w'))
      | _ \<Rightarrow> Inl (RuntimeError TypeAssertionError))"

definition RunSpecs ::
  "('v, 'l, 'r) Suite_Run \<Rightarrow> 'v \<Rightarrow> string \<Rightarrow> ('v, 'l) world \<Rightarrow> 'v interface + 'r" where
  "RunSpecs run t description w =
     (let specReporters = [buildDefaultReporter w]
      in RunSpecsWithCustomReporters run t description specReporters w)"

definition RunSpecsWithDefaultAndCustomReporters ::
  "('v, 'l, 'r) Suite_Run \<Rightarrow> 'v \<Rightarrow> string \<Rightarrow> 'v Reporter list \<Rightarrow> ('v, 'l) world
     \<Rightarrow> 'v interface + 'r" where
  "RunSpecsWithDefaultAndCustomReporters run t description specReporters w =
     (let specReporters' = [buildDefaultReporter w] @ specReporters
      in RunSpecsWithCustomReporters run t description specReporters' w)"

subsection \<open>Failing and recovering\<close>

definition Fail ::
  "string \<Rightarrow> int list \<Rightarrow> ('v, 'l) world \<Rightarrow> ('v interface + unit) \<times> ('v, 'l) world" where
  "Fail message callerSkip w =
     (let skip = (if 0 < length callerSkip then callerSkip ! 0 else 0);
          w' = w\<lparr>globalSuite := Suite_Fail message skip (globalSuite w)\<rparr>
      in (Inl (GoString GINKGO_PANIC), w'))"

definition GinkgoRecover ::
  "('v, 'l) extern \<Rightarrow> bool \<Rightarrow> 'v goroutine \<times> ('v, 'l) world \<Rightarrow> 'v goroutine \<times> ('v, 'l) world" where
  \<comment> \<open>\<open>deferred\<close>: the call is the one a \<^verbatim>\<open>defer GinkgoRecover()\<close> statement makes,
      so that the \<^verbatim>\<open>recover()\<close> in it is called directly by a deferred function.\<close>
  "GinkgoRecover x deferred gw =
     (case gw of (g, w) \<Rightarrow>
        (case recover deferred g of (e, g') \<Rightarrow>
           if e \<noteq> Nil
           then (g', w\<lparr>globalSuite :=
                        Suite_Fail (''Goroutine Panicked'' @ [LF] @ GoSyntax x e) 1 (globalSuite w)\<rparr>)
           else (g', w)))"

subsection \<open>Containers\<close>

definition Describe ::
  "('v, 'l) extern \<Rightarrow> string \<Rightarrow> 'v \<Rightarrow> ('v, 'l) world \<Rightarrow> ('v, bool) outcome \<times> ('v, 'l) world" where
  "Describe x txt b w =
     returning True (PushContainerNode x txt b FlagTypeNone (codelocation_New x 1) w)"

definition FDescribe ::
  "('v, 'l) extern \<Rightarrow> string \<Rightarrow> 'v \<Rightarrow> ('v, 'l) world \<Rightarrow> ('v, bool) outcome \<times> ('v, 'l) world" where
  "FDescribe x txt b w =
     returning True (PushContainerNode x txt b FlagTypeFocused (codelocation_New x 1) w)"

definition PDescribe ::
  "('v, 'l) extern \<Rightarrow> string \<Rightarrow> 'v \<Rightarrow> ('v, 'l) world \<Rightarrow> ('v, bool) outcome \<times> ('v, 'l) world" where
  "PDescribe x txt b w =
     returning True (PushContainerNode x txt b FlagTypePending (codelocation_New x 1) w)"

definition XDescribe ::
  "('v, 'l) extern \<Rightarrow> string \<Rightarrow> 'v \<Rightarrow> ('v, 'l) world \<Rightarrow> ('v, bool) outcome \<times> ('v, 'l) world" where
  "XDescribe x txt b w =
     returning True (PushContainerNode x txt b FlagTypePending (codelocation_New x 1) w)"

definition Context ::
  "('v, 'l) extern \<Rightarrow> string \<Rightarrow> 'v \<Rightarrow> ('v, 'l) world \<Rightarrow> ('v, bool) outcome \<times> ('v, 'l) world" where
  "Context x txt b w =
     returning True (PushContainerNode x txt b FlagTypeNone (codelocation_New x 1) w)"

definition FContext ::
  "('v, 'l) extern \<Rightarrow> string \<Rightarrow> 'v \<Rightarrow> ('v, 'l) world \<Rightarrow> ('v, bool) outcome \<times> ('v, 'l) world" where
  "FContext x txt b w =
     returning True (PushContainerNode x txt b FlagTypeFocused (codelocation_New x 1) w)"

definition PContext ::
  "('v, 'l) extern \<Rightarrow> string \<Rightarrow> 'v \<Rightarrow> ('v, 'l) world \<Rightarrow> ('v, bool) outcome \<times> ('v, 'l) world" where
  "PContext x txt b w =
     returning True (PushContainerNode x txt b FlagTypePending (codelocation_New x 1) w)"

definition XContext ::
  "('v, 'l) extern \<Rightarrow> string \<Rightarrow> 'v \<Rightarrow> ('v, 'l) world \<Rightarrow> ('v, bool) outcome \<times> ('v, 'l) world" where
  "XContext x txt b w =
     returning True (PushContainerNode x txt b FlagTypePending (codelocation_New x 1) w)"

subsection \<open>Leaves\<close>

definition It ::
  "('v, 'l) extern \<Rightarrow> string \<Rightarrow> 'v \<Rightarrow> float64 list \<Rightarrow> ('v, 'l) world
     \<Rightarrow> ('v, bool) outcome \<times> ('v, 'l) world" where
  "It x txt b timeout w =
     returning True
       (PushItNode txt (Body b) FlagTypeNone (codelocation_New x 1)
          (parseTimeout (int64_unrepresentable x) timeout) w)"

definition FIt ::
  "('v, 'l) extern \<Rightarrow> string \<Rightarrow> 'v \<Rightarrow> float64 list \<Rightarrow> ('v, 'l) world
     \<Rightarrow> ('v, bool) outcome \<times> ('v, 'l) world" where
  "FIt x txt b timeout w =
     returning True
       (PushItNode txt (Body b) FlagTypeFocused (codelocation_New x 1)
          (parseTimeout (int64_unrepresentable x) timeout) w)"

definition PIt ::
  "('v, 'l) extern \<Rightarrow> string \<Rightarrow> 'v list \<Rightarrow> ('v, 'l) world
     \<Rightarrow> ('v, bool) outcome \<times> ('v, 'l) world" where
  "PIt x txt ignored w =
     returning True
       (PushItNode txt EmptyFunc FlagTypePending (codelocation_New x 1) 0 w)"

definition XIt ::
  "('v, 'l) extern \<Rightarrow> string \<Rightarrow> 'v list \<Rightarrow> ('v, 'l) world
     \<Rightarrow> ('v, bool) outcome \<times> ('v, 'l) world" where
  "XIt x txt ignored w =
     returning True
       (PushItNode txt EmptyFunc FlagTypePending (codelocation_New x 1) 0 w)"

definition Measure ::
  "('v, 'l) extern \<Rightarrow> string \<Rightarrow> 'v \<Rightarrow> int \<Rightarrow> ('v, 'l) world
     \<Rightarrow> ('v, bool) outcome \<times> ('v, 'l) world" where
  "Measure x txt b samples w =
     returning True
       (PushMeasureNode txt (Body b) FlagTypeNone (codelocation_New x 1) samples w)"

definition FMeasure ::
  "('v, 'l) extern \<Rightarrow> string \<Rightarrow> 'v \<Rightarrow> int \<Rightarrow> ('v, 'l) world
     \<Rightarrow> ('v, bool) outcome \<times> ('v, 'l) world" where
  "FMeasure x txt b samples w =
     returning True
       (PushMeasureNode txt (Body b) FlagTypeFocused (codelocation_New x 1) samples w)"

definition PMeasure ::
  "('v, 'l) extern \<Rightarrow> string \<Rightarrow> 'v list \<Rightarrow> ('v, 'l) world
     \<Rightarrow> ('v, bool) outcome \<times> ('v, 'l) world" where
  "PMeasure x txt ignored w =
     returning True
       (PushMeasureNode txt EmptyBenchmarkerFunc FlagTypePending (codelocation_New x 1) 0 w)"

definition XMeasure ::
  "('v, 'l) extern \<Rightarrow> string \<Rightarrow> 'v list \<Rightarrow> ('v, 'l) world
     \<Rightarrow> ('v, bool) outcome \<times> ('v, 'l) world" where
  "XMeasure x txt ignored w =
     returning True
       (PushMeasureNode txt EmptyBenchmarkerFunc FlagTypePending (codelocation_New x 1) 0 w)"

subsection \<open>Hooks\<close>

definition BeforeEach ::
  "('v, 'l) extern \<Rightarrow> 'v \<Rightarrow> float64 list \<Rightarrow> ('v, 'l) world
     \<Rightarrow> ('v, bool) outcome \<times> ('v, 'l) world" where
  "BeforeEach x b timeout w =
     returning True
       (PushBeforeEachNode (Body b) (codelocation_New x 1)
          (parseTimeout (int64_unrepresentable x) timeout) w)"

definition JustBeforeEach ::
  "('v, 'l) extern \<Rightarrow> 'v \<Rightarrow> float64 list \<Rightarrow> ('v, 'l) world
     \<Rightarrow> ('v, bool) outcome \<times> ('v, 'l) world" where
  "JustBeforeEach x b timeout w =
     returning True
       (PushJustBeforeEachNode (Body b) (codelocation_New x 1)
          (parseTimeout (int64_unrepresentable x) timeout) w)"

definition AfterEach ::
  "('v, 'l) extern \<Rightarrow> 'v \<Rightarrow> float64 list \<Rightarrow> ('v, 'l) world
     \<Rightarrow> ('v, bool) outcome \<times> ('v, 'l) world" where
  "AfterEach x b timeout w =
     returning True
       (PushAfterEachNode (Body b) (codelocation_New x 1)
          (parseTimeout (int64_unrepresentable x) timeout) w)"

subsection \<open>Observing a declaration\<close>

definition pushed :: "('v, 'l) world \<Rightarrow> ('v, 'l) world \<Rightarrow> ('v, 'l) node list" where
  \<comment> \<open>The nodes the suite holds in \<open>w'\<close> beyond those it held in \<open>w\<close>.\<close>
  "pushed w w' = drop (length (nodes (globalSuite w))) (nodes (globalSuite w'))"

definition recorded :: "('v, 'l) world \<Rightarrow> ('v, 'l) world \<Rightarrow> (string \<times> int) list" where
  \<comment> \<open>The failures the suite holds in \<open>w'\<close> beyond those it held in \<open>w\<close>.\<close>
  "recorded w w' = drop (length (failures (globalSuite w))) (failures (globalSuite w'))"

fun is_ForwardingReporter :: "'v Reporter \<Rightarrow> bool" where
  "is_ForwardingReporter (remote_NewForwardingReporter _ _ _) = True"
| "is_ForwardingReporter _ = False"

text \<open>
  The declaration functions listed by kind, each with the arguments its signature takes:
  the eight container forms, and the eleven forms that declare a leaf or a hook.
\<close>

definition container_declarations ::
  "('v, 'l) extern \<Rightarrow> string \<Rightarrow> 'v
     \<Rightarrow> (('v, 'l) world \<Rightarrow> ('v, bool) outcome \<times> ('v, 'l) world) list" where
  "container_declarations x txt b =
     [Describe x txt b, FDescribe x txt b, PDescribe x txt b, XDescribe x txt b,
      Context x txt b, FContext x txt b, PContext x txt b, XContext x txt b]"

definition leaf_declarations ::
  "('v, 'l) extern \<Rightarrow> string \<Rightarrow> 'v \<Rightarrow> float64 list \<Rightarrow> int \<Rightarrow> 'v list
     \<Rightarrow> (('v, 'l) world \<Rightarrow> ('v, bool) outcome \<times> ('v, 'l) world) list" where
  "leaf_declarations x txt b timeout samples ignored =
     [It x txt b timeout, FIt x txt b timeout, PIt x txt ignored, XIt x txt ignored,
      Measure x txt b samples, FMeasure x txt b samples, PMeasure x txt ignored,
      XMeasure x txt ignored, BeforeEach x b timeout, JustBeforeEach x b timeout,
      AfterEach x b timeout]"

subsection \<open>A concrete state\<close>

text \<open>
  Collaborators and a package state to run the definitions on. Locations are the skip
  given to \<^verbatim>\<open>codelocation.New\<close>; the conversion of an unrepresentable float64 yields
  the smallest int64, as on amd64; opaque Go values are Go integers. \<^verbatim>\<open>%#v\<close> prints
  nil as \<^verbatim>\<open><nil>\<close>, an integer in decimal and a string as a quoted Go string literal
  (\<^verbatim>\<open>strconv.Quote\<close>); the quoting below is that of strings of ASCII characters, a
  byte outside ASCII being written as a hexadecimal escape, and an error value, whose
  rendering shows addresses, is given by the name of its type only.
\<close>

definition hexdigit :: "nat \<Rightarrow> char" where
  "hexdigit n = ''0123456789abcdef'' ! (n mod 16)"

definition quote_char :: "char \<Rightarrow> string" where
  "quote_char c =
     (let n = (of_char c :: nat)
      in if n = 0x22 then [CHR 0x5C, CHR 0x22]
         else if n = 0x5C then [CHR 0x5C, CHR 0x5C]
         else if n = 0x07 then [CHR 0x5C, CHR ''a'']
         else if n = 0x08 then [CHR 0x5C, CHR ''b'']
         else if n = 0x0C then [CHR 0x5C, CHR ''f'']
         else if n = 0x0A then [CHR 0x5C, CHR ''n'']
         else if n = 0x0D then [CHR 0x5C, CHR ''r'']
         else if n = 0x09 then [CHR 0x5C, CHR ''t'']
         else if n = 0x0B then [CHR 0x5C, CHR ''v'']
         else if n < 0x20 \<or> 0x7F \<le> n
           then [CHR 0x5C, CHR ''x'', hexdigit (n div 16), hexdigit (n mod 16)]
         else [c])"

definition Quote_ascii :: "string \<Rightarrow> string" where
  "Quote_ascii s = [CHR 0x22] @ concat (map quote_char s) @ [CHR 0x22]"

fun decimal :: "nat \<Rightarrow> string" where
  "decimal n =
     (if n < 10 then [''0123456789'' ! n] else decimal (n div 10) @ [''0123456789'' ! (n mod 10)])"

declare decimal.simps [simp del]

definition GoSyntax0 :: "nat interface \<Rightarrow> string" where
  "GoSyntax0 e =
     (case e of
        Nil \<Rightarrow> ''<nil>''
      | GoString s \<Rightarrow> Quote_ascii s
      | Value n \<Rightarrow> decimal n
      | RuntimeError r \<Rightarrow> ''runtime.Error''
      | ConfigurationError \<Rightarrow> ''ConfigurationError'')"

definition extern1 :: "(nat, int) extern" where
  \<comment> \<open>Collaborators for which every body returns at once and changes nothing.\<close>
  "extern1 =
     \<lparr>codelocation_New = (\<lambda>skip. skip),
      GoSyntax = GoSyntax0,
      int64_unrepresentable = (\<lambda>f. - 9223372036854775808),
      invoke = (\<lambda>f w. (Returned (), w))\<rparr>"

definition bodies0 :: "nat \<Rightarrow> (nat, int) world \<Rightarrow> (nat, unit) outcome \<times> (nat, int) world" where
  \<comment> \<open>Bodies of containers: function 11 declares a leaf and returns, function 13 calls
      \<^verbatim>\<open>Fail\<close>, function 17 never returns, every other function returns at once.\<close>
  "bodies0 f w =
     (if f = 11 then returning () (It extern1 ''inner'' 7 [] w)
      else if f = 13 then
        (case Fail ''boom'' [] w of
           (Inl e, w') \<Rightarrow> (Panicked e, w')
         | (Inr u, w') \<Rightarrow> (Returned (), w'))
      else if f = 17 then (NeverReturns, w)
      else (Returned (), w))"

definition extern0 :: "(nat, int) extern" where
  "extern0 = extern1\<lparr>invoke := bodies0\<rparr>"

definition world0 :: "(nat, int) world" where
  \<comment> \<open>A build pass under way, inside one grouping, with nothing declared yet.\<close>
  "world0 =
     \<lparr>globalSuite = \<lparr>nodes = [], failures = []\<rparr>,
      GinkgoWriter = InternalGinkgoWriter \<lparr>directToStdout = False, buffer = [], sink = []\<rparr>,
      DefaultReporterConfig = \<lparr>NoColor = False, Verbose = True\<rparr>,
      GinkgoConfig = 0,
      environ = (\<lambda>key. None),
      building = True,
      cursor = [''suite'']\<rparr>"

section \<open>Properties of the float64 operations\<close>

lemma bitlen_pos: "0 < m \<Longrightarrow> 0 < bitlen m"
  by (subst bitlen.simps) simp

lemma bitlen_bounds: "0 < m \<Longrightarrow> 2 ^ (bitlen m - 1) \<le> m \<and> m < 2 ^ bitlen m"
proof (induction m rule: bitlen.induct)
  case (1 n)
  show ?case
  proof (cases "n div 2 = 0")
    case True
    with 1 have n1: "n = 1" by (simp add: div_eq_0_iff)
    have "bitlen 1 = 1" by (simp add: bitlen.simps)
    with n1 show ?thesis by simp
  next
    case False
    then have pos: "0 < n div 2" by simp
    with 1 have ih: "2 ^ (bitlen (n div 2) - 1) \<le> n div 2" "n div 2 < 2 ^ bitlen (n div 2)"
      by simp_all
    have bl: "bitlen n = Suc (bitlen (n div 2))"
      using 1 by (subst bitlen.simps) simp
    have "0 < bitlen (n div 2)" using pos by (rule bitlen_pos)
    then obtain k' where k': "bitlen (n div 2) = Suc k'" by (cases "bitlen (n div 2)") auto
    from ih(1) k' have "2 * 2 ^ k' \<le> 2 * (n div 2)" by simp
    also have "\<dots> \<le> n" by simp
    finally have lo: "2 ^ (bitlen n - 1) \<le> n" by (simp add: bl k')
    from ih(2) have "n div 2 + 1 \<le> 2 ^ bitlen (n div 2)" by simp
    then have "2 * (n div 2 + 1) \<le> 2 * 2 ^ bitlen (n div 2)" by simp
    moreover have "n < 2 * (n div 2 + 1)" by arith
    ultimately have hi: "n < 2 ^ bitlen n" by (simp add: bl)
    from lo hi show ?thesis ..
  qed
qed




text \<open>
  The operations return values a float64 can hold. Where the significand fits at the
  exponent chosen, rounding keeps the value; where it does not, the result is within
  half a unit of the last place (\<open>2^d\<close> in units of the argument's exponent), the tie
  going to the even significand by the definition.
\<close>

lemma pack_is_float64: "m \<le> 2 ^ 53 \<Longrightarrow> - 1074 \<le> e \<Longrightarrow> is_float64 (pack s m e)"
  by (simp add: pack_def)

lemma round_float_is_float64: "is_float64 (round_float s m e)"
proof (cases "m = 0")
  case True
  then show ?thesis by (simp add: round_float_def)
next
  case False
  then have pos: "0 < m" by simp
  let ?k = "bitlen m"
  define e' where "e' = max (e + int ?k - 53) (- 1074)"
  have lo: "- 1074 \<le> e'" and ge: "e + int ?k - 53 \<le> e'" by (simp_all add: e'_def)
  from bitlen_bounds [OF pos] have b: "m < 2 ^ ?k" by simp
  show ?thesis
  proof (cases "e' \<le> e")
    case True
    define j where "j = nat (e - e')"
    have "?k + j \<le> 53" using ge True by (simp add: j_def)
    then have p: "(2::nat) ^ (?k + j) \<le> 2 ^ 53" by (rule power_increasing) simp
    have "m * 2 ^ j \<le> 2 ^ ?k * 2 ^ j" using b by simp
    also have "\<dots> = 2 ^ (?k + j)" by (simp only: power_add)
    also note p
    finally have "m * 2 ^ j \<le> 2 ^ 53" .
    then have "is_float64 (pack s (m * 2 ^ j) e')" using lo by (rule pack_is_float64)
    with False True show ?thesis
      by (simp add: round_float_def e'_def [symmetric] j_def Let_def)
  next
    case gt: False
    define d where "d = nat (e' - e)"
    define q where "q = m div 2 ^ d"
    have kd: "?k \<le> 53 + d" using ge gt by (simp add: d_def)
    have "(2::nat) ^ ?k \<le> 2 ^ (53 + d)" using kd by (rule power_increasing) simp
    with b have "m < 2 ^ (53 + d)" by (rule less_le_trans)
    then have "m < 2 ^ 53 * 2 ^ d" by (simp add: power_add)
    then have "q < 2 ^ 53" by (simp add: q_def less_mult_imp_div_less)
    then have "is_float64 (pack s q e')" "is_float64 (pack s (Suc q) e')"
      using lo by (simp_all add: pack_is_float64)
    with False gt show ?thesis
      by (simp add: round_float_def e'_def [symmetric] d_def q_def Let_def)
  qed
qed

lemma fmul_is_float64: "is_float64 (fmul a b)"
  by (cases a; cases b) (simp_all add: round_float_is_float64)







subsection \<open>The operations against the numbers they denote\<close>





section \<open>Properties of \<^verbatim>\<open>parseTimeout\<close>\<close>









section \<open>Properties of the collaborators\<close>

lemma range_reporters_copy:
  "length reporters = i + length specReporters \<Longrightarrow>
     range_reporters i specReporters reporters = Inr (take i reporters @ specReporters)"
proof (induction specReporters arbitrary: i reporters)
  case Nil
  then show ?case by simp
next
  case (Cons r rs)
  then have i: "i < length reporters" by simp
  have len: "length (reporters[i := r]) = Suc i + length rs" using Cons.prems by simp
  have "range_reporters i (r # rs) reporters = range_reporters (Suc i) rs (reporters[i := r])"
    using i by simp
  also have "\<dots> = Inr (take (Suc i) (reporters[i := r]) @ rs)"
    using len by (rule Cons.IH)
  also have "take (Suc i) (reporters[i := r]) = take i reporters @ [r]"
    using i by (simp add: take_Suc_conv_app_nth)
  finally show ?case by simp
qed

lemma range_make_reporters:
  "range_reporters 0 specReporters (make_reporters (length specReporters)) = Inr specReporters"
  using range_reporters_copy [of "make_reporters (length specReporters)" 0 specReporters]
  by (simp add: make_reporters_def)

lemma pushed_handed: "pushed w (w\<lparr>globalSuite := handed n (globalSuite w)\<rparr>) = [n]"
  by (simp add: pushed_def handed_def)

lemma recorded_Suite_Fail:
  "recorded w (w\<lparr>globalSuite := Suite_Fail message callerSkip (globalSuite w)\<rparr>) =
     [(message, callerSkip)]"
  by (simp add: recorded_def Suite_Fail_def)

lemma snd_returning: "snd (returning r call) = snd call"
  by (cases call; cases "fst call") (simp_all add: returning_def)

lemma fst_returning:
  "fst (returning r call) =
     (case fst call of Returned u \<Rightarrow> Returned r | Panicked e \<Rightarrow> Panicked e
      | NeverReturns \<Rightarrow> NeverReturns)"
  by (cases call; cases "fst call") (simp_all add: returning_def)

lemma snd_push_leaf: "snd (push_leaf n w) = w\<lparr>globalSuite := handed n (globalSuite w)\<rparr>"
  by (simp add: push_leaf_def)

lemma fst_push_leaf:
  "fst (push_leaf n w) =
     (if building w \<and> cursor w \<noteq> [] then Returned () else Panicked ConfigurationError)"
  by (simp add: push_leaf_def)

lemma pushed_push_leaf: "pushed w (snd (push_leaf n w)) = [n]"
  by (simp add: snd_push_leaf pushed_handed)

text \<open>
  However the body of a container ends and whatever it does, the push hands the suite
  exactly one node at the grouping being built: the container, with the arguments of the
  push.
\<close>

lemma pushed_PushContainerNode:
  "\<exists>children. pushed w (snd (PushContainerNode x txt f flag codeLocation w)) =
     [ContainerNode txt (Body f) flag codeLocation children]"
proof (cases "building w")
  case False
  then show ?thesis by (simp add: PushContainerNode_def pushed_handed)
next
  case True
  obtain ending left where r: "invoke x f (enter txt w) = (ending, left)"
    by (cases "invoke x f (enter txt w)")
  show ?thesis
    using True r
    by (cases ending) (simp_all add: PushContainerNode_def pushed_def handed_def Let_def)
qed

lemma fst_PushContainerNode:
  "fst (PushContainerNode x txt f flag codeLocation w) =
     (if building w
      then (case fst (invoke x f (enter txt w)) of
              Returned u \<Rightarrow> Returned () | Panicked e \<Rightarrow> Panicked e
            | NeverReturns \<Rightarrow> NeverReturns)
      else Panicked ConfigurationError)"
proof (cases "building w")
  case False
  then show ?thesis by (simp add: PushContainerNode_def)
next
  case True
  obtain ending left where r: "invoke x f (enter txt w) = (ending, left)"
    by (cases "invoke x f (enter txt w)")
  show ?thesis
    using True r by (cases ending) (simp_all add: PushContainerNode_def Let_def)
qed

lemmas Push_defs =
  PushItNode_def PushMeasureNode_def PushBeforeEachNode_def
  PushJustBeforeEachNode_def PushAfterEachNode_def

lemmas container_defs =
  Describe_def FDescribe_def PDescribe_def XDescribe_def
  Context_def FContext_def PContext_def XContext_def

lemmas leaf_defs =
  It_def FIt_def PIt_def XIt_def Measure_def FMeasure_def PMeasure_def XMeasure_def
  BeforeEach_def JustBeforeEach_def AfterEach_def

lemma RunSpecsWithCustomReporters_internal:
  "RunSpecsWithCustomReporters run t description specReporters
     (w\<lparr>GinkgoWriter := InternalGinkgoWriter wr\<rparr>) =
     Inr (run t description specReporters
            (wr\<lparr>directToStdout := Verbose (DefaultReporterConfig w)\<rparr>) (GinkgoConfig w)
            (w\<lparr>GinkgoWriter := InternalGinkgoWriter
                  (wr\<lparr>directToStdout := Verbose (DefaultReporterConfig w)\<rparr>)\<rparr>))"
  by (simp add: RunSpecsWithCustomReporters_def range_make_reporters SetDirectToStdout_def Let_def)

lemma RunSpecsWithCustomReporters_foreign:
  "RunSpecsWithCustomReporters run t description specReporters (w\<lparr>GinkgoWriter := NilWriter\<rparr>) =
     Inl (RuntimeError TypeAssertionError)"
  "RunSpecsWithCustomReporters run t description specReporters
     (w\<lparr>GinkgoWriter := OtherWriter other\<rparr>) = Inl (RuntimeError TypeAssertionError)"
  by (simp_all add: RunSpecsWithCustomReporters_def)




lemma flag_of_container:
  "map node_flag (pushed w (snd (PushContainerNode x txt f flag codeLocation w))) = [Some flag]"
  using pushed_PushContainerNode [of w x "txt" f flag codeLocation] by auto

lemma Quote_ascii_sample:
  "Quote_ascii ([LF] @ ''can't'' @ [TAB, CHR 0x22, CHR 0x5C, CHR 0x01, CHR 0x7F] @ ''!'') =
     [CHR 0x22, CHR 0x5C] @ ''ncan't'' @ [CHR 0x5C] @ ''t'' @ [CHR 0x5C, CHR 0x22, CHR 0x5C, CHR 0x5C,
       CHR 0x5C] @ ''x01'' @ [CHR 0x5C] @ ''x7f!'' @ [CHR 0x22]"
  by (simp add: Quote_ascii_def quote_char_def LF_def TAB_def hexdigit_def Let_def)

lemma outcomes_of_leaves:
  "map (\<lambda>d. fst (d w)) (leaf_declarations x txt b timeout samples ignored) =
     replicate 11 (if building w \<and> cursor w \<noteq> [] then Returned True
                   else Panicked ConfigurationError)"
  by (simp add: leaf_declarations_def leaf_defs Push_defs fst_returning fst_push_leaf
      numeral_eq_Suc)

lemma outcomes_of_containers:
  "map (\<lambda>d. fst (d w)) (container_declarations x txt b) =
     replicate 8
       (if building w
        then (case fst (invoke x b (enter txt w)) of
                Returned u \<Rightarrow> Returned True | Panicked e \<Rightarrow> Panicked e
              | NeverReturns \<Rightarrow> NeverReturns)
        else Panicked ConfigurationError)"
  by (cases "fst (invoke x b (enter txt w))")
    (simp_all add: container_declarations_def container_defs fst_returning
      fst_PushContainerNode numeral_eq_Suc)

section \<open>The claims\<close>




text \<open>
  C2. For every message and every list of caller skips, \<^verbatim>\<open>Fail\<close> ends in a panic
  with the value \<^verbatim>\<open>GINKGO_PANIC\<close> and never returns normally, and the state the
  panic leaves behind is the state before the call with one more failure recorded by the
  suite: the message given, with the first caller skip supplied, or 0 when none is.
\<close>

theorem C2_Fail_records_then_panics:
  "fst (Fail message callerSkip w) = Inl (GoString GINKGO_PANIC) \<and>
   (\<forall>r. fst (Fail message callerSkip w) \<noteq> Inr r) \<and>
   snd (Fail message callerSkip w) =
     w\<lparr>globalSuite := (globalSuite w)\<lparr>failures := failures (globalSuite w) @
        [(message, case callerSkip of [] \<Rightarrow> 0 | skip # _ \<Rightarrow> skip)]\<rparr>\<rparr> \<and>
   recorded w (snd (Fail message [] w)) = [(message, 0)] \<and>
   recorded w (snd (Fail message (skip # rest) w)) = [(message, skip)]"
  by (cases callerSkip) (simp_all add: Fail_def Suite_Fail_def recorded_def)

text \<open>
  C3. When the \<^verbatim>\<open>recover()\<close> in \<^verbatim>\<open>GinkgoRecover\<close> returns a value other than nil
  (a panic is in flight and the call is the deferred one), \<^verbatim>\<open>GinkgoRecover\<close> returns
  with the goroutine no longer panicking and with one more failure recorded by the suite:
  the text "Goroutine Panicked", a newline and the panic value as \<^verbatim>\<open>%#v\<close> prints it,
  with caller skip 1. When no panic is in flight it changes nothing, and whenever
  \<^verbatim>\<open>recover()\<close> returns nil the package state is left as it was.
\<close>

theorem C3_GinkgoRecover:
  "(fst (recover deferred g) \<noteq> Nil \<longrightarrow>
      GinkgoRecover x deferred (g, w) =
        (g\<lparr>panicking := None\<rparr>,
         w\<lparr>globalSuite := (globalSuite w)\<lparr>failures := failures (globalSuite w) @
            [(''Goroutine Panicked'' @ [LF] @ GoSyntax x (fst (recover deferred g)), 1)]\<rparr>\<rparr>)) \<and>
   (panicking g = None \<longrightarrow> GinkgoRecover x deferred (g, w) = (g, w)) \<and>
   (fst (recover deferred g) = Nil \<longrightarrow> snd (GinkgoRecover x deferred (g, w)) = w)"
  by (auto simp: GinkgoRecover_def recover_def Suite_Fail_def split: option.splits)

theorem C3_GinkgoRecover_witness:
  "fst (recover True \<lparr>panicking = Some (GoString GINKGO_PANIC)\<rparr>) \<noteq> (Nil :: nat interface) \<and>
   GinkgoRecover extern0 True (\<lparr>panicking = Some (GoString GINKGO_PANIC)\<rparr>, world0) =
     (\<lparr>panicking = None\<rparr>,
      world0\<lparr>globalSuite := \<lparr>nodes = [],
         failures = [(''Goroutine Panicked'' @ [LF] @ Quote_ascii GINKGO_PANIC, 1)]\<rparr>\<rparr>) \<and>
   GinkgoRecover extern0 True (\<lparr>panicking = Some (Value 42)\<rparr>, world0) =
     (\<lparr>panicking = None\<rparr>,
      world0\<lparr>globalSuite := \<lparr>nodes = [],
         failures = [(''Goroutine Panicked'' @ [LF] @ ''42'', 1)]\<rparr>\<rparr>) \<and>
   panicking \<lparr>panicking = (None :: nat interface option)\<rparr> = None \<and>
   GinkgoRecover extern0 True (\<lparr>panicking = None\<rparr>, world0) = (\<lparr>panicking = None\<rparr>, world0) \<and>
   fst (recover False \<lparr>panicking = Some (GoString GINKGO_PANIC)\<rparr>) = (Nil :: nat interface) \<and>
   snd (GinkgoRecover extern0 False (\<lparr>panicking = Some (GoString GINKGO_PANIC)\<rparr>, world0)) = world0"
proof -
  have d: "decimal 42 = ''42''" by (simp add: decimal.simps)
  show ?thesis
    using C3_GinkgoRecover [of True "\<lparr>panicking = Some (GoString GINKGO_PANIC)\<rparr>" extern0 world0]
      C3_GinkgoRecover [of True "\<lparr>panicking = Some (Value 42)\<rparr>" extern0 world0]
      C3_GinkgoRecover [of True "\<lparr>panicking = None\<rparr>" extern0 world0]
      C3_GinkgoRecover [of False "\<lparr>panicking = Some (GoString GINKGO_PANIC)\<rparr>" extern0 world0]
    by (simp add: recover_def extern0_def extern1_def GoSyntax0_def world0_def d)
qed

text \<open>
  C4. The flag of the node a declaration hands to the suite is fixed by the name of the
  declaration: \<^verbatim>\<open>Describe\<close>, \<^verbatim>\<open>Context\<close>, \<^verbatim>\<open>It\<close> and \<^verbatim>\<open>Measure\<close> push the
  flag None, the forms prefixed with F push Focused, and the forms prefixed with P or X
  push Pending; a P form and its X form do the same on every input.
\<close>

theorem C4_flag_of_declaration:
  "map node_flag (pushed w (snd (Describe x txt b w))) = [Some FlagTypeNone] \<and>
   map node_flag (pushed w (snd (Context x txt b w))) = [Some FlagTypeNone] \<and>
   map node_flag (pushed w (snd (It x txt b timeout w))) = [Some FlagTypeNone] \<and>
   map node_flag (pushed w (snd (Measure x txt b samples w))) = [Some FlagTypeNone] \<and>
   map node_flag (pushed w (snd (FDescribe x txt b w))) = [Some FlagTypeFocused] \<and>
   map node_flag (pushed w (snd (FContext x txt b w))) = [Some FlagTypeFocused] \<and>
   map node_flag (pushed w (snd (FIt x txt b timeout w))) = [Some FlagTypeFocused] \<and>
   map node_flag (pushed w (snd (FMeasure x txt b samples w))) = [Some FlagTypeFocused] \<and>
   map node_flag (pushed w (snd (PDescribe x txt b w))) = [Some FlagTypePending] \<and>
   map node_flag (pushed w (snd (XDescribe x txt b w))) = [Some FlagTypePending] \<and>
   map node_flag (pushed w (snd (PContext x txt b w))) = [Some FlagTypePending] \<and>
   map node_flag (pushed w (snd (XContext x txt b w))) = [Some FlagTypePending] \<and>
   map node_flag (pushed w (snd (PIt x txt ignored w))) = [Some FlagTypePending] \<and>
   map node_flag (pushed w (snd (XIt x txt ignored w))) = [Some FlagTypePending] \<and>
   map node_flag (pushed w (snd (PMeasure x txt ignored w))) = [Some FlagTypePending] \<and>
   map node_flag (pushed w (snd (XMeasure x txt ignored w))) = [Some FlagTypePending] \<and>
   PDescribe x txt b w = XDescribe x txt b w \<and>
   PContext x txt b w = XContext x txt b w \<and>
   PIt x txt ignored w = XIt x txt ignored w \<and>
   PMeasure x txt ignored w = XMeasure x txt ignored w"
  by (simp add: container_defs leaf_defs Push_defs snd_returning pushed_push_leaf
      flag_of_container)

text \<open>
  C5. A leaf declared pending at its own declaration (\<^verbatim>\<open>PIt\<close>, \<^verbatim>\<open>XIt\<close>,
  \<^verbatim>\<open>PMeasure\<close>, \<^verbatim>\<open>XMeasure\<close>) discards what the caller supplied after the text:
  the node handed to the suite carries an empty function as its body, with timeout 0
  (\<^verbatim>\<open>PIt\<close>, \<^verbatim>\<open>XIt\<close>) or 0 samples (\<^verbatim>\<open>PMeasure\<close>, \<^verbatim>\<open>XMeasure\<close>); the call
  does the same whatever was supplied, and no supplied value is the body of the node, so
  the suite has no supplied body to run.
\<close>

theorem C5_pending_leaf_discards_body:
  "pushed w (snd (PIt x txt ignored w)) =
     [ItNode txt EmptyFunc FlagTypePending (codelocation_New x 1) 0] \<and>
   pushed w (snd (XIt x txt ignored w)) =
     [ItNode txt EmptyFunc FlagTypePending (codelocation_New x 1) 0] \<and>
   pushed w (snd (PMeasure x txt ignored w)) =
     [MeasureNode txt EmptyBenchmarkerFunc FlagTypePending (codelocation_New x 1) 0] \<and>
   pushed w (snd (XMeasure x txt ignored w)) =
     [MeasureNode txt EmptyBenchmarkerFunc FlagTypePending (codelocation_New x 1) 0] \<and>
   PIt x txt ignored w = PIt x txt [] w \<and>
   XIt x txt ignored w = XIt x txt [] w \<and>
   PMeasure x txt ignored w = PMeasure x txt [] w \<and>
   XMeasure x txt ignored w = XMeasure x txt [] w \<and>
   (\<forall>supplied. Body supplied \<notin> node_body ` set (pushed w (snd (PIt x txt ignored w))) \<and>
      Body supplied \<notin> node_body ` set (pushed w (snd (XIt x txt ignored w))) \<and>
      Body supplied \<notin> node_body ` set (pushed w (snd (PMeasure x txt ignored w))) \<and>
      Body supplied \<notin> node_body ` set (pushed w (snd (XMeasure x txt ignored w))))"
  by (simp add: PIt_def XIt_def PMeasure_def XMeasure_def PushItNode_def PushMeasureNode_def
      snd_returning pushed_push_leaf)

text \<open>
  C6. \<^verbatim>\<open>buildDefaultReporter\<close> returns the forwarding reporter exactly when the
  environment variable \<^verbatim>\<open>GINKGO_REMOTE_REPORTING_SERVER\<close> is not empty, built for the
  address the variable holds; when the variable is empty or not set it returns the default
  reporter, built from the default reporter configuration and a stenographer that colours
  its output unless \<^verbatim>\<open>NoColor\<close> is set.
\<close>

theorem C6_buildDefaultReporter:
  "(is_ForwardingReporter (buildDefaultReporter w) \<longleftrightarrow>
      os_Getenv w ''GINKGO_REMOTE_REPORTING_SERVER'' \<noteq> []) \<and>
   (os_Getenv w ''GINKGO_REMOTE_REPORTING_SERVER'' \<noteq> [] \<longrightarrow>
      buildDefaultReporter w =
        remote_NewForwardingReporter (os_Getenv w ''GINKGO_REMOTE_REPORTING_SERVER'')
          http_Client_zero remote_NewOutputInterceptor) \<and>
   (os_Getenv w ''GINKGO_REMOTE_REPORTING_SERVER'' = [] \<longrightarrow>
      buildDefaultReporter w =
        reporters_NewDefaultReporter (DefaultReporterConfig w)
          (stenographer_New (\<not> NoColor (DefaultReporterConfig w))))"
  by (simp add: buildDefaultReporter_def Let_def)

theorem C6_buildDefaultReporter_witness:
  "os_Getenv world0 ''GINKGO_REMOTE_REPORTING_SERVER'' = [] \<and>
   buildDefaultReporter world0 =
     reporters_NewDefaultReporter \<lparr>NoColor = False, Verbose = True\<rparr> (stenographer_New True) \<and>
   \<not> is_ForwardingReporter (buildDefaultReporter world0) \<and>
   os_Getenv (world0\<lparr>environ := [''GINKGO_REMOTE_REPORTING_SERVER'' \<mapsto> ''127.0.0.1:7788'']\<rparr>)
     ''GINKGO_REMOTE_REPORTING_SERVER'' \<noteq> [] \<and>
   buildDefaultReporter
     (world0\<lparr>environ := [''GINKGO_REMOTE_REPORTING_SERVER'' \<mapsto> ''127.0.0.1:7788'']\<rparr>) =
     remote_NewForwardingReporter ''127.0.0.1:7788'' http_Client_zero remote_NewOutputInterceptor \<and>
   is_ForwardingReporter (buildDefaultReporter
     (world0\<lparr>environ := [''GINKGO_REMOTE_REPORTING_SERVER'' \<mapsto> ''127.0.0.1:7788'', ''HOME'' \<mapsto> []]\<rparr>))"
  using C6_buildDefaultReporter [of world0]
    C6_buildDefaultReporter
      [of "world0\<lparr>environ := [''GINKGO_REMOTE_REPORTING_SERVER'' \<mapsto> ''127.0.0.1:7788'']\<rparr>"]
    C6_buildDefaultReporter
      [of "world0\<lparr>environ := [''GINKGO_REMOTE_REPORTING_SERVER'' \<mapsto> ''127.0.0.1:7788'', ''HOME'' \<mapsto> []]\<rparr>"]
  by (simp add: os_Getenv_def world0_def)

text \<open>
  C7. The order of the reporters is kept on the way to the suite. With the output writer
  that the package installs held in \<^verbatim>\<open>GinkgoWriter\<close>,
  \<^verbatim>\<open>RunSpecsWithCustomReporters\<close> calls \<^verbatim>\<open>Run\<close> with a reporter list equal to the
  list it was given, and \<^verbatim>\<open>RunSpecsWithDefaultAndCustomReporters\<close> calls it with the
  default reporter followed by the custom reporters in the order given; the copying loop
  returns the list it copies and never panics. With anything else in \<^verbatim>\<open>GinkgoWriter\<close>
  the type assertion panics and the suite is not reached.
\<close>

theorem C7_reporter_order:
  "RunSpecsWithCustomReporters run t description specReporters
     (w\<lparr>GinkgoWriter := InternalGinkgoWriter wr\<rparr>) =
     Inr (run t description specReporters
            (wr\<lparr>directToStdout := Verbose (DefaultReporterConfig w)\<rparr>) (GinkgoConfig w)
            (w\<lparr>GinkgoWriter := InternalGinkgoWriter
                  (wr\<lparr>directToStdout := Verbose (DefaultReporterConfig w)\<rparr>)\<rparr>)) \<and>
   RunSpecsWithDefaultAndCustomReporters run t description specReporters
     (w\<lparr>GinkgoWriter := InternalGinkgoWriter wr\<rparr>) =
     Inr (run t description (buildDefaultReporter w # specReporters)
            (wr\<lparr>directToStdout := Verbose (DefaultReporterConfig w)\<rparr>) (GinkgoConfig w)
            (w\<lparr>GinkgoWriter := InternalGinkgoWriter
                  (wr\<lparr>directToStdout := Verbose (DefaultReporterConfig w)\<rparr>)\<rparr>)) \<and>
   range_reporters 0 specReporters (make_reporters (length specReporters)) = Inr specReporters \<and>
   RunSpecsWithCustomReporters run t description specReporters (w\<lparr>GinkgoWriter := NilWriter\<rparr>) =
     Inl (RuntimeError TypeAssertionError) \<and>
   RunSpecsWithCustomReporters run t description specReporters
     (w\<lparr>GinkgoWriter := OtherWriter other\<rparr>) = Inl (RuntimeError TypeAssertionError)"
proof -
  have "buildDefaultReporter (w\<lparr>GinkgoWriter := InternalGinkgoWriter wr\<rparr>) =
          buildDefaultReporter w"
    by (simp add: buildDefaultReporter_def os_Getenv_def Let_def)
  then show ?thesis
    by (simp add: RunSpecsWithCustomReporters_internal RunSpecsWithCustomReporters_foreign
        RunSpecsWithDefaultAndCustomReporters_def range_make_reporters)
qed

theorem C7_reporter_order_witness:
  "RunSpecsWithCustomReporters (\<lambda>t description reporters writer config w'. reporters)
     0 ''suite'' [CustomReporter 3, NilReporter, CustomReporter 2, CustomReporter 3] world0 =
     Inr [CustomReporter 3, NilReporter, CustomReporter 2, CustomReporter 3] \<and>
   RunSpecsWithDefaultAndCustomReporters (\<lambda>t description reporters writer config w'. reporters)
     0 ''suite'' [CustomReporter 3, NilReporter, CustomReporter 2, CustomReporter 3] world0 =
     Inr [reporters_NewDefaultReporter \<lparr>NoColor = False, Verbose = True\<rparr> (stenographer_New True),
          CustomReporter 3, NilReporter, CustomReporter 2, CustomReporter 3]"
proof -
  have w: "world0 = world0\<lparr>GinkgoWriter :=
             InternalGinkgoWriter \<lparr>directToStdout = False, buffer = [], sink = []\<rparr>\<rparr>"
    by (simp add: world0_def)
  have d: "buildDefaultReporter world0 =
             reporters_NewDefaultReporter \<lparr>NoColor = False, Verbose = True\<rparr> (stenographer_New True)"
    by (simp add: buildDefaultReporter_def os_Getenv_def world0_def)
  show ?thesis
    using C7_reporter_order [where run = "\<lambda>t description reporters writer config w'. reporters"
        and t = 0 and description = "''suite''"
        and specReporters = "[CustomReporter 3, NilReporter, CustomReporter 2, CustomReporter 3]"
        and w = world0 and wr = "\<lparr>directToStdout = False, buffer = [], sink = []\<rparr>"]
    by (simp add: w [symmetric] d)
qed

text \<open>
  C8. With the output writer that the package installs held in \<^verbatim>\<open>GinkgoWriter\<close>,
  \<^verbatim>\<open>RunSpecsWithCustomReporters\<close>, and \<^verbatim>\<open>RunSpecs\<close> and
  \<^verbatim>\<open>RunSpecsWithDefaultAndCustomReporters\<close> through it, call \<^verbatim>\<open>Run\<close> with the
  writer's direct-to-stdout mode already set to the \<^verbatim>\<open>Verbose\<close> field of the default
  reporter configuration, whatever the mode was before; the writer's contents are
  untouched. A writer in that mode sends every write to the real sink, a writer out of it
  holds every write in its buffer. With anything else in \<^verbatim>\<open>GinkgoWriter\<close> the type
  assertion panics before \<^verbatim>\<open>Run\<close> is called.
\<close>

theorem C8_writer_mode_before_run:
  "RunSpecsWithCustomReporters run t description specReporters
     (w\<lparr>GinkgoWriter := InternalGinkgoWriter wr\<rparr>) =
     Inr (run t description specReporters
            (wr\<lparr>directToStdout := Verbose (DefaultReporterConfig w)\<rparr>) (GinkgoConfig w)
            (w\<lparr>GinkgoWriter := InternalGinkgoWriter
                  (wr\<lparr>directToStdout := Verbose (DefaultReporterConfig w)\<rparr>)\<rparr>)) \<and>
   RunSpecs run t description (w\<lparr>GinkgoWriter := InternalGinkgoWriter wr\<rparr>) =
     Inr (run t description [buildDefaultReporter w]
            (wr\<lparr>directToStdout := Verbose (DefaultReporterConfig w)\<rparr>) (GinkgoConfig w)
            (w\<lparr>GinkgoWriter := InternalGinkgoWriter
                  (wr\<lparr>directToStdout := Verbose (DefaultReporterConfig w)\<rparr>)\<rparr>)) \<and>
   RunSpecsWithDefaultAndCustomReporters run t description specReporters
     (w\<lparr>GinkgoWriter := InternalGinkgoWriter wr\<rparr>) =
     Inr (run t description (buildDefaultReporter w # specReporters)
            (wr\<lparr>directToStdout := Verbose (DefaultReporterConfig w)\<rparr>) (GinkgoConfig w)
            (w\<lparr>GinkgoWriter := InternalGinkgoWriter
                  (wr\<lparr>directToStdout := Verbose (DefaultReporterConfig w)\<rparr>)\<rparr>)) \<and>
   Write bytes (wr\<lparr>directToStdout := True\<rparr>) =
     wr\<lparr>directToStdout := True, sink := sink wr @ bytes\<rparr> \<and>
   Write bytes (wr\<lparr>directToStdout := False\<rparr>) =
     wr\<lparr>directToStdout := False, buffer := buffer wr @ bytes\<rparr> \<and>
   RunSpecsWithCustomReporters run t description specReporters (w\<lparr>GinkgoWriter := NilWriter\<rparr>) =
     Inl (RuntimeError TypeAssertionError) \<and>
   RunSpecsWithCustomReporters run t description specReporters
     (w\<lparr>GinkgoWriter := OtherWriter other\<rparr>) = Inl (RuntimeError TypeAssertionError)"
proof -
  have "buildDefaultReporter (w\<lparr>GinkgoWriter := InternalGinkgoWriter wr\<rparr>) =
          buildDefaultReporter w"
    by (simp add: buildDefaultReporter_def os_Getenv_def Let_def)
  then show ?thesis
    by (simp add: RunSpecsWithCustomReporters_internal RunSpecsWithCustomReporters_foreign
        RunSpecsWithDefaultAndCustomReporters_def RunSpecs_def Write_def)
qed

theorem C8_writer_mode_before_run_witness:
  "RunSpecsWithCustomReporters (\<lambda>t description reporters writer config w'. Write ''log'' writer)
     0 ''suite'' [] world0 = Inr \<lparr>directToStdout = True, buffer = [], sink = ''log''\<rparr> \<and>
   RunSpecs (\<lambda>t description reporters writer config w'. GinkgoWriter w')
     0 ''suite'' world0 =
     Inr (InternalGinkgoWriter \<lparr>directToStdout = True, buffer = [], sink = []\<rparr>) \<and>
   RunSpecsWithCustomReporters (\<lambda>t description reporters writer config w'. Write ''log'' writer)
     0 ''suite'' [] (world0\<lparr>DefaultReporterConfig := \<lparr>NoColor = False, Verbose = False\<rparr>,
        GinkgoWriter := InternalGinkgoWriter \<lparr>directToStdout = True, buffer = ''a'', sink = ''b''\<rparr>\<rparr>) =
     Inr \<lparr>directToStdout = False, buffer = ''alog'', sink = ''b''\<rparr>"
proof -
  have w: "world0 = world0\<lparr>GinkgoWriter :=
             InternalGinkgoWriter \<lparr>directToStdout = False, buffer = [], sink = []\<rparr>\<rparr>"
    by (simp add: world0_def)
  have v: "Verbose (DefaultReporterConfig world0)"
    by (simp add: world0_def)
  show ?thesis
    using C8_writer_mode_before_run
        [where run = "\<lambda>t description reporters writer config w'. Write ''log'' writer"
          and t = 0 and description = "''suite''" and specReporters = "[]" and w = world0
          and wr = "\<lparr>directToStdout = False, buffer = [], sink = []\<rparr>"]
      C8_writer_mode_before_run
        [where run = "\<lambda>t description reporters writer config w'. GinkgoWriter w'"
          and t = 0 and description = "''suite''" and specReporters = "[]" and w = world0
          and wr = "\<lparr>directToStdout = False, buffer = [], sink = []\<rparr>"]
      C8_writer_mode_before_run
        [where run = "\<lambda>t description reporters writer config w'. Write ''log'' writer"
          and t = 0 and description = "''suite''" and specReporters = "[]"
          and w = "world0\<lparr>DefaultReporterConfig := \<lparr>NoColor = False, Verbose = False\<rparr>\<rparr>"
          and wr = "\<lparr>directToStdout = True, buffer = ''a'', sink = ''b''\<rparr>"
          and bytes = "''log''"]
    by (simp add: w [symmetric] v)
qed

text \<open>
  C9. No declaration function returns false: true is the only value any of the nineteen
  returns. A declaration of a leaf or a hook returns true when a build pass is under way
  and the cursor is inside a grouping, and ends in the panic of the suite's
  configuration error otherwise. A declaration of a container made during a build pass
  ends as its body does: it returns true when the body returns, panics with the value
  the body panicked with (thus with \<^verbatim>\<open>GINKGO_PANIC\<close> when the body calls \<^verbatim>\<open>Fail\<close>),
  and does not return when the body does not; outside a build pass it panics with the
  configuration error. So a declaration need not return true on every input.
\<close>

theorem C9_declarations_return_true:
  "Returned False \<notin> set (map (\<lambda>d. fst (d w)) (container_declarations x txt b)) \<and>
   Returned False \<notin>
     set (map (\<lambda>d. fst (d w)) (leaf_declarations x txt b timeout samples ignored)) \<and>
   (building w \<and> cursor w \<noteq> [] \<longrightarrow>
      map (\<lambda>d. fst (d w)) (leaf_declarations x txt b timeout samples ignored) =
        replicate 11 (Returned True)) \<and>
   (building w \<and> fst (invoke x b (enter txt w)) = Returned () \<longrightarrow>
      map (\<lambda>d. fst (d w)) (container_declarations x txt b) = replicate 8 (Returned True)) \<and>
   (building w \<and> fst (invoke x b (enter txt w)) = Panicked p \<longrightarrow>
      map (\<lambda>d. fst (d w)) (container_declarations x txt b) = replicate 8 (Panicked p)) \<and>
   (building w \<and> fst (invoke x b (enter txt w)) = NeverReturns \<longrightarrow>
      map (\<lambda>d. fst (d w)) (container_declarations x txt b) = replicate 8 NeverReturns) \<and>
   (\<not> building w \<longrightarrow>
      map (\<lambda>d. fst (d w)) (container_declarations x txt b) =
        replicate 8 (Panicked ConfigurationError)) \<and>
   (\<not> (building w \<and> cursor w \<noteq> []) \<longrightarrow>
      map (\<lambda>d. fst (d w)) (leaf_declarations x txt b timeout samples ignored) =
        replicate 11 (Panicked ConfigurationError))"
  unfolding outcomes_of_leaves outcomes_of_containers
  by (cases "fst (invoke x b (enter txt w))") auto

theorem C9_declarations_return_true_witness:
  "building world0 \<and> cursor world0 \<noteq> [] \<and>
   map (\<lambda>d. fst (d world0)) (leaf_declarations extern0 ''group'' 11 [] 5 [7, 8]) =
     replicate 11 (Returned True) \<and>
   fst (invoke extern0 11 (enter ''group'' world0)) = Returned () \<and>
   map (\<lambda>d. fst (d world0)) (container_declarations extern0 ''group'' 11) =
     replicate 8 (Returned True) \<and>
   fst (invoke extern0 13 (enter ''group'' world0)) = Panicked (GoString GINKGO_PANIC) \<and>
   map (\<lambda>d. fst (d world0)) (container_declarations extern0 ''group'' 13) =
     replicate 8 (Panicked (GoString GINKGO_PANIC)) \<and>
   fst (invoke extern0 17 (enter ''group'' world0)) = NeverReturns \<and>
   map (\<lambda>d. fst (d world0)) (container_declarations extern0 ''group'' 17) =
     replicate 8 NeverReturns \<and>
   \<not> building (world0\<lparr>building := False\<rparr>) \<and>
   map (\<lambda>d. fst (d (world0\<lparr>building := False\<rparr>))) (container_declarations extern0 ''group'' 11) =
     replicate 8 (Panicked ConfigurationError) \<and>
   \<not> (building (world0\<lparr>cursor := []\<rparr>) \<and> cursor (world0\<lparr>cursor := []\<rparr>) \<noteq> []) \<and>
   map (\<lambda>d. fst (d (world0\<lparr>cursor := []\<rparr>))) (leaf_declarations extern0 ''group'' 11 [] 5 [7, 8]) =
     replicate 11 (Panicked ConfigurationError)"
proof -
  have i: "invoke extern0 = bodies0" by (simp add: extern0_def)
  have b: "building world0" "cursor world0 \<noteq> []" by (simp_all add: world0_def)
  have r: "fst (bodies0 11 (enter ''group'' world0)) = Returned ()"
    "fst (bodies0 13 (enter ''group'' world0)) = Panicked (GoString GINKGO_PANIC)"
    "fst (bodies0 17 (enter ''group'' world0)) = NeverReturns"
    by (simp_all add: bodies0_def fst_returning It_def PushItNode_def fst_push_leaf enter_def
        world0_def Fail_def Let_def)
  show ?thesis
    using C9_declarations_return_true [of world0 extern0 "''group''" 11 "[]" 5 "[7, 8]" Nil]
      C9_declarations_return_true [of world0 extern0 "''group''" 13 "[]" 5 "[7, 8]"
        "GoString GINKGO_PANIC"]
      C9_declarations_return_true [of world0 extern0 "''group''" 17 "[]" 5 "[7, 8]" Nil]
      C9_declarations_return_true [of "world0\<lparr>building := False\<rparr>" extern0 "''group''" 11
        "[]" 5 "[7, 8]" Nil]
      C9_declarations_return_true [of "world0\<lparr>cursor := []\<rparr>" extern0 "''group''" 11
        "[]" 5 "[7, 8]" Nil]
    by (simp add: i b r)
qed

theorem C9_declarations_return_true_counterexample:
  "fst (Describe extern0 ''group'' 13 world0) = Panicked (GoString GINKGO_PANIC) \<and>
   fst (Describe extern0 ''group'' 13 world0) \<noteq> Returned True \<and>
   fst (Context extern0 ''group'' 17 world0) = NeverReturns \<and>
   fst (It extern0 ''leaf'' 7 [] (world0\<lparr>cursor := []\<rparr>)) = Panicked ConfigurationError \<and>
   fst (BeforeEach extern0 7 [] (world0\<lparr>building := False\<rparr>)) = Panicked ConfigurationError"
  by (simp add: container_defs leaf_defs Push_defs fst_returning fst_PushContainerNode
      fst_push_leaf extern0_def extern1_def bodies0_def enter_def world0_def Fail_def Let_def)




end
